theory Spec2Isabelle
  imports Main "HOL-Library.AList"
begin

section \<open>Python strings and the built-in conversions\<close>

text \<open>
  Strings are \<open>char list\<close>, a character being a code point below 256. \<open>str.strip\<close>
  removes the characters for which \<open>str.isspace\<close> holds (in this range the codes 9 to
  13, 28 to 32, 133 and 160), \<open>str.lower\<close> maps \<open>A\<close>..\<open>Z\<close> and the upper-case letters
  at 192 to 214 and 216 to 222 to the letter 32 above, and the only decimal digits are
  \<open>0\<close>..\<open>9\<close>.
\<close>

definition is_space :: "char \<Rightarrow> bool" where
  "is_space c =
     (let n = (of_char c :: nat)
      in (9 \<le> n \<and> n \<le> 13) \<or> (28 \<le> n \<and> n \<le> 32) \<or> n = 133 \<or> n = 160)"

definition strip :: "string \<Rightarrow> string" where
  "strip s = rev (dropWhile is_space (rev (dropWhile is_space s)))"

definition lower_char :: "char \<Rightarrow> char" where
  "lower_char c =
     (let n = (of_char c :: nat)
      in if (65 \<le> n \<and> n \<le> 90) \<or> (192 \<le> n \<and> n \<le> 214) \<or> (216 \<le> n \<and> n \<le> 222)
         then char_of (n + 32) else c)"

definition lower :: "string \<Rightarrow> string" where
  "lower s = map lower_char s"

text \<open>
  \<open>int(str)\<close> and \<open>float(str)\<close> skip, at both ends, a smaller set of characters than
  \<open>str.strip\<close>: the codes 9 to 13 and 32, and 133 and 160, but not 28 to 31.
\<close>

definition is_num_space :: "char \<Rightarrow> bool" where
  "is_num_space c =
     (let n = (of_char c :: nat) in (9 \<le> n \<and> n \<le> 13) \<or> n = 32 \<or> n = 133 \<or> n = 160)"

definition strip_num :: "string \<Rightarrow> string" where
  "strip_num s = rev (dropWhile is_num_space (rev (dropWhile is_num_space s)))"

definition is_digit :: "char \<Rightarrow> bool" where
  "is_digit c = (let n = (of_char c :: nat) in 48 \<le> n \<and> n \<le> 57)"

text \<open>The letters \<open>A\<close>..\<open>Z\<close> and \<open>a\<close>..\<open>z\<close>.\<close>

definition is_letter :: "char \<Rightarrow> bool" where
  "is_letter c = (let n = (of_char c :: nat) in (65 \<le> n \<and> n \<le> 90) \<or> (97 \<le> n \<and> n \<le> 122))"

definition digit_value :: "char \<Rightarrow> int" where
  "digit_value c = int (of_char c) - 48"

definition decimal :: "string \<Rightarrow> int" where
  "decimal ds = foldl (\<lambda>a c. 10 * a + digit_value c) 0 ds"

text \<open>
  The grammar of Python's numeric literals in \<open>int(str)\<close> and \<open>float(str)\<close>:
  \<open>digitpart ::= digit (["_"] digit)*\<close>. \<open>digits_tail\<close> consumes the repetition after the
  first digit and returns the digits read and the unread rest.
\<close>

fun digits_tail :: "string \<Rightarrow> string \<times> string" where
  "digits_tail [] = ([], [])"
| "digits_tail [c] = (if is_digit c then ([c], []) else ([], [c]))"
| "digits_tail (c # d # cs) =
     (if is_digit c then (let (ds, r) = digits_tail (d # cs) in (c # ds, r))
      else if c = CHR ''_'' \<and> is_digit d then (let (ds, r) = digits_tail cs in (d # ds, r))
      else ([], c # d # cs))"

definition digitpart :: "string \<Rightarrow> (string \<times> string) option" where
  "digitpart s =
     (case s of
        [] \<Rightarrow> None
      | c # cs \<Rightarrow> if is_digit c then (let (ds, r) = digits_tail cs in Some (c # ds, r)) else None)"

definition split_sign :: "string \<Rightarrow> bool \<times> string" where
  "split_sign s =
     (case s of
        [] \<Rightarrow> (False, [])
      | c # r \<Rightarrow> if c = CHR ''-'' then (True, r) else if c = CHR ''+'' then (False, r) else (False, s))"

text \<open>
  \<open>int(s)\<close> in base 10: surrounding whitespace, an optional sign, a digitpart of at most
  \<open>int_max_str_digits\<close> digits (the default limit of Python 3.11, which counts the
  digits and neither the sign nor the underscores). \<open>None\<close> is Python's \<open>ValueError\<close>.
\<close>

definition int_max_str_digits :: nat where
  "int_max_str_digits = 4300"

definition py_int :: "string \<Rightarrow> int option" where
  "py_int s =
     (let (neg, r) = split_sign (strip_num s) in
      case digitpart r of
        None \<Rightarrow> None
      | Some (ds, rest) \<Rightarrow>
          if rest = [] \<and> length ds \<le> int_max_str_digits
          then Some (if neg then - decimal ds else decimal ds) else None)"

text \<open>
  \<open>float(s)\<close> accepts \<open>[sign] (number [exponent] | "inf" | "infinity" | "nan")\<close>, case
  insensitively, with \<open>number ::= [digitpart] "." digitpart | digitpart ["."]\<close> and
  \<open>exponent ::= ("e" | "E") [sign] digitpart\<close>, between the whitespace that \<open>int\<close> skips
  too and with no limit on the digits. Only whether the text is accepted is modelled:
  the floating-point number itself is not computed.
\<close>

definition exponent_ok :: "string \<Rightarrow> bool" where
  "exponent_ok r =
     (case r of
        [] \<Rightarrow> True
      | c # r' \<Rightarrow>
          (c = CHR ''e'' \<or> c = CHR ''E'') \<and>
          (case digitpart (snd (split_sign r')) of None \<Rightarrow> False | Some (ds, rest) \<Rightarrow> rest = []))"

definition number_ok :: "string \<Rightarrow> bool" where
  "number_ok s =
     (case digitpart s of
        Some (ds, r) \<Rightarrow>
          (case r of
             [] \<Rightarrow> True
           | c # r' \<Rightarrow>
               if c = CHR ''.'' then
                 (case digitpart r' of None \<Rightarrow> exponent_ok r' | Some (fs, r'') \<Rightarrow> exponent_ok r'')
               else exponent_ok r)
      | None \<Rightarrow>
          (case s of
             [] \<Rightarrow> False
           | c # r \<Rightarrow>
               c = CHR ''.'' \<and>
               (case digitpart r of None \<Rightarrow> False | Some (fs, r') \<Rightarrow> exponent_ok r')))"

definition py_float_ok :: "string \<Rightarrow> bool" where
  "py_float_ok s =
     (let r = snd (split_sign (strip_num s)) in
      lower r \<in> set [''inf'', ''infinity'', ''nan''] \<or> number_ok r)"

section \<open>CSVToJSONConverter: cell and row cleaning\<close>

text \<open>The values \<open>_convert_value\<close> and \<open>_clean_row\<close> produce. A float carries the text
  it was parsed from.\<close>

datatype pyval = PyNone | PyInt int | PyFloat string | PyBool bool | PyStr string

definition convert_value :: "string \<Rightarrow> pyval" where
  "convert_value v =
     (case py_int v of
        Some n \<Rightarrow> PyInt n
      | None \<Rightarrow>
          if py_float_ok v then PyFloat v
          else if lower v \<in> set [''true'', ''false'', ''yes'', ''no'', ''1'', ''0'']
               then PyBool (lower v \<in> set [''true'', ''yes'', ''1''])
          else PyStr v)"

text \<open>
  A row as \<open>csv.DictReader\<close> yields it: a dict in insertion order (an association list
  with distinct keys, written with \<open>AList.update\<close>). A key is a column name, or \<open>None\<close>
  (the default \<open>restkey\<close>) for the cells beyond the last column name, whose value is the
  list of those cells; a value is a string, or \<open>None\<close> (the default \<open>restval\<close>) for a
  column the row has no cell for.
\<close>

datatype cell = CellNone | CellStr string | CellList "string list"

type_synonym row = "(string option \<times> cell) list"

type_synonym record_dict = "(string \<times> pyval) list"

datatype error = AttributeError | Exception string

definition dictreader_row :: "string list \<Rightarrow> string list \<Rightarrow> row" where
  "dictreader_row fieldnames fields =
     (let d = fold (\<lambda>(k, v). AList.update (Some k) (CellStr v)) (zip fieldnames fields) [];
          lf = length fieldnames; lr = length fields
      in if lf < lr then AList.update None (CellList (drop lf fields)) d
         else fold (\<lambda>k. AList.update (Some k) CellNone) (drop lr fieldnames) d)"

definition clean_key_of :: "string option \<Rightarrow> string" where
  "clean_key_of key =
     (case key of
        None \<Rightarrow> ''unnamed_column''
      | Some k \<Rightarrow> if k = [] then ''unnamed_column'' else strip k)"

fun clean_row_loop :: "row \<Rightarrow> record_dict \<Rightarrow> error + record_dict" where
  "clean_row_loop [] cleaned = Inr cleaned"
| "clean_row_loop ((key, value) # rest) cleaned =
     (let clean_key = clean_key_of key in
      case value of
        CellNone \<Rightarrow> clean_row_loop rest (AList.update clean_key PyNone cleaned)
      | CellStr s \<Rightarrow>
          if strip s = [] then clean_row_loop rest (AList.update clean_key PyNone cleaned)
          else clean_row_loop rest (AList.update clean_key (convert_value (strip s)) cleaned)
      | CellList l \<Rightarrow> Inl AttributeError)"

definition clean_row :: "row \<Rightarrow> error + record_dict" where
  "clean_row r = clean_row_loop r []"

section \<open>CSVToJSONConverter: reading a file\<close>

text \<open>
  What \<open>_read_csv\<close> sees of a file is, for each encoding it opens the file with, how the
  body of its \<open>try\<close> fares up to the rows: the text does not decode
  (\<open>UnicodeDecodeError\<close>), another exception is raised (the sniffer finds no delimiter,
  say), or the reader yields rows.
\<close>

datatype attempt = UnicodeDecodeError | ReadError | Parsed "row list"

type_synonym csvfile = "string \<Rightarrow> attempt"

fun clean_rows :: "row list \<Rightarrow> error + record_dict list" where
  "clean_rows [] = Inr []"
| "clean_rows (r # rs) =
     (case clean_row r of
        Inl e \<Rightarrow> Inl e
      | Inr d \<Rightarrow> (case clean_rows rs of Inl e \<Rightarrow> Inl e | Inr ds \<Rightarrow> Inr (d # ds)))"

definition encodings :: "string list" where
  "encodings = [''utf-8'', ''latin-1'', ''cp1252'']"

text \<open>The loop over the encodings; its value is \<open>data\<close> after the loop, which starts as
  \<open>[]\<close> and is assigned only by an attempt that runs to its \<open>break\<close>.\<close>

fun read_csv_loop :: "csvfile \<Rightarrow> string list \<Rightarrow> record_dict list" where
  "read_csv_loop f [] = []"
| "read_csv_loop f (encoding # rest) =
     (case f encoding of
        UnicodeDecodeError \<Rightarrow> read_csv_loop f rest
      | ReadError \<Rightarrow> read_csv_loop f rest
      | Parsed rows \<Rightarrow>
          (case clean_rows rows of
             Inl e \<Rightarrow> read_csv_loop f rest
           | Inr data \<Rightarrow> data))"

definition read_csv :: "csvfile \<Rightarrow> error + record_dict list" where
  "read_csv f =
     (let data = read_csv_loop f encodings in
      if data = [] then Inl (Exception ''Could not read CSV file with any encoding'')
      else Inr data)"

text \<open>An attempt succeeds when it reaches the \<open>break\<close>.\<close>

definition encoding_succeeds :: "csvfile \<Rightarrow> string \<Rightarrow> bool" where
  "encoding_succeeds f encoding =
     (case f encoding of
        Parsed rows \<Rightarrow> (case clean_rows rows of Inl e \<Rightarrow> False | Inr data \<Rightarrow> True)
      | _ \<Rightarrow> False)"

section \<open>Paths\<close>

text \<open>A path is its text, with \<open>/\<close> between components. \<open>suffix\<close> and \<open>stem\<close> are
  pathlib's: the suffix starts at the last dot of the name, unless that dot is the
  first or the last character of the name.\<close>

definition path_name :: "string \<Rightarrow> string" where
  "path_name p = rev (takeWhile (\<lambda>c. c \<noteq> CHR ''/'') (rev p))"

definition suffix_at :: "string \<Rightarrow> nat option" where
  "suffix_at n =
     (if CHR ''.'' \<in> set n then
        (let i = length n - length (takeWhile (\<lambda>c. c \<noteq> CHR ''.'') (rev n)) - 1
         in if 0 < i \<and> i < length n - 1 then Some i else None)
      else None)"

definition suffix :: "string \<Rightarrow> string" where
  "suffix p = (let n = path_name p in case suffix_at n of None \<Rightarrow> [] | Some i \<Rightarrow> drop i n)"

definition stem :: "string \<Rightarrow> string" where
  "stem p = (let n = path_name p in case suffix_at n of None \<Rightarrow> n | Some i \<Rightarrow> take i n)"

definition path_join :: "string \<Rightarrow> string \<Rightarrow> string" where
  "path_join d m = d @ ''/'' @ m"

section \<open>The processors and the processing chain\<close>

text \<open>
  What is on disk at a path: a directory, or a file. A file is given by how it reads as
  CSV and by how it opens as a ZIP archive: \<open>None\<close> when \<open>zipfile.ZipFile\<close> raises,
  otherwise its members in \<open>namelist\<close> order, each with what extraction puts on disk.
\<close>

datatype fnode = Directory | File csvfile "(string \<times> fnode) list option"

datatype processor = ZipProcessor | CSVToJSONConverter

definition can_process :: "processor \<Rightarrow> string \<Rightarrow> bool" where
  "can_process p file_path =
     (case p of
        ZipProcessor \<Rightarrow> lower (suffix file_path) = ''.zip''
      | CSVToJSONConverter \<Rightarrow> lower (suffix file_path) = ''.csv'')"

definition is_file :: "fnode \<Rightarrow> bool" where
  "is_file n = (case n of Directory \<Rightarrow> False | File f z \<Rightarrow> True)"

text \<open>\<open>ZipProcessor.process\<close>: the extracted regular files, each with its content; \<open>[]\<close>
  when the archive cannot be opened.\<close>

definition zip_process :: "string \<Rightarrow> fnode \<Rightarrow> string \<Rightarrow> (string \<times> fnode) list" where
  "zip_process file_path node output_dir =
     (case node of
        Directory \<Rightarrow> []
      | File f None \<Rightarrow> []
      | File f (Some members) \<Rightarrow>
          (let extract_dir = path_join output_dir (stem file_path) in
           map (\<lambda>(member, c). (path_join extract_dir member, c))
             (filter (\<lambda>(member, c). is_file c) members)))"

text \<open>\<open>CSVToJSONConverter.process\<close>: the path of the JSON file, or \<open>[]\<close> when reading
  raises.\<close>

definition csv_process :: "string \<Rightarrow> fnode \<Rightarrow> string \<Rightarrow> string list" where
  "csv_process file_path node output_dir =
     (case node of
        Directory \<Rightarrow> []
      | File f z \<Rightarrow>
          (case read_csv f of
             Inl e \<Rightarrow> []
           | Inr data \<Rightarrow> [path_join output_dir (stem file_path @ ''.json'')]))"

text \<open>
  The calls of \<open>process\<close> that one run of \<open>_process_single_file\<close> makes: the processor,
  the file it was given, and the calls made below it for the extracted files.
\<close>

datatype call = Call processor string "call list"

definition call_head :: "call \<Rightarrow> processor \<times> string" where
  "call_head c = (case c of Call p file_path subs \<Rightarrow> (p, file_path))"

lemma member_size: "(m, c) \<in> set ms \<Longrightarrow> size c < size (File f (Some ms))"
  by (induction ms) auto

lemma zip_process_size:
  "(q, c) \<in> set (zip_process file_path node output_dir) \<Longrightarrow> size c < size node"
  by (auto simp: zip_process_def split: fnode.splits option.splits dest: member_size)

text \<open>
  \<open>_process_single_file\<close>, for a file and what is on disk at it. The loop runs over every
  registered processor and has no \<open>break\<close>. The result is \<open>processed_files\<close> and the
  calls made.
\<close>

function process_single_file ::
  "processor list \<Rightarrow> string \<Rightarrow> string \<Rightarrow> fnode \<Rightarrow> string list \<times> call list" where
  "process_single_file file_processors output_dir file_path node =
     (let outs = map (\<lambda>p.
            if can_process p file_path then
              (case p of
                 ZipProcessor \<Rightarrow>
                   (let results = zip_process file_path node output_dir;
                        subs = map (\<lambda>(q, c). process_single_file file_processors output_dir q c)
                                 results
                    in (map fst results @ concat (map fst subs),
                        [Call p file_path (concat (map snd subs))]))
               | CSVToJSONConverter \<Rightarrow>
                   (csv_process file_path node output_dir, [Call p file_path []]))
            else ([], [])) file_processors
      in (concat (map fst outs), concat (map snd outs)))"
  by pat_completeness auto
termination
  apply (relation "measure (\<lambda>(file_processors, output_dir, file_path, node). size node)")
   apply simp
  apply (auto dest: zip_process_size)
  done

declare process_single_file.simps [simp del]

text \<open>The registry that \<open>create_monitor\<close> builds.\<close>

definition create_monitor_processors :: "processor list" where
  "create_monitor_processors = [ZipProcessor, CSVToJSONConverter]"

section \<open>Configuration, requests and responses\<close>

record Config =
  base_url :: string
  download_dir :: string
  output_dir :: string
  log_file :: string
  cache_file :: string
  check_interval_minutes :: int
  max_workers :: int
  user_agent :: string
  request_timeout :: int
  retry_attempts :: int

text \<open>\<open>FileInfo\<close>; its field \<open>size\<close> is \<open>size'\<close> here.\<close>

record FileInfo =
  url :: string
  filename :: string
  size' :: "int option"
  last_modified :: "string option"
  checksum :: "string option"

text \<open>
  A response: its status, its headers (looked up by lower-case name), and its body as
  the chunks the connection delivers, after which the transfer has ended or, when
  \<open>broken\<close>, raises. A request either raises (no connection, a timeout) or returns a
  response.
\<close>

record Response =
  status_code :: nat
  headers :: "string \<Rightarrow> string option"
  chunks :: "string list"
  broken :: bool

datatype http_result = Raises | Returns Response

text \<open>What a function does on the network and the clock: requests with their timeout,
  and sleeps in seconds.\<close>

datatype http_event = Get string int | Head string int | Sleep nat

definition raise_for_status :: "Response \<Rightarrow> bool" where
  "raise_for_status r = (400 \<le> status_code r \<and> status_code r < 600)"


definition content :: "Response \<Rightarrow> string" where
  "content r = concat (chunks r)"

section \<open>WebsiteMonitor\<close>



text \<open>
  The cache file: absent, not loadable as JSON, a JSON value that is not an object, or
  an object. Of a value in the object only whether it is a string, and which, matters.
  \<open>cache_writable\<close> says whether opening the file for writing succeeds.
\<close>

datatype jval = JStr string | JOther







definition content_length :: "Response \<Rightarrow> int option" where
  "content_length r = (case headers r ''content-length'' of None \<Rightarrow> Some 0 | Some s \<Rightarrow> py_int s)"

text \<open>\<open>_enrich_file_info\<close>, given what the HEAD request meets.\<close>

definition enrich_file_info :: "Config \<Rightarrow> http_result \<Rightarrow> FileInfo \<Rightarrow> FileInfo \<times> http_event list" where
  "enrich_file_info config head_result file_info =
     (let ev = [Head (url file_info) (request_timeout config)] in
      case head_result of
        Raises \<Rightarrow> (file_info, ev)
      | Returns response \<Rightarrow>
          (case content_length response of
             None \<Rightarrow> (file_info, ev)
           | Some n \<Rightarrow>
               (file_info\<lparr>size' := Some n, last_modified := headers response ''last-modified''\<rparr>,
                ev)))"


section \<open>FileDownloader\<close>

text \<open>
  The download directory as a map from paths to the bytes of the file there. Creating
  the directory and opening the destination for writing are taken to succeed.
  \<open>zip_check\<close> is what opening a file's bytes with \<open>zipfile.ZipFile\<close> and running
  \<open>testzip\<close> does: it returns, raises \<open>BadZipFile\<close>, or raises another exception.
\<close>

type_synonym files = "string \<Rightarrow> string option"

datatype zip_check = ZipOk | BadZipFile | ZipError

definition validate_existing_file :: "files \<Rightarrow> string \<Rightarrow> FileInfo \<Rightarrow> bool" where
  "validate_existing_file fs file_path file_info =
     (case fs file_path of
        None \<Rightarrow> False
      | Some b \<Rightarrow>
          (case size' file_info of
             None \<Rightarrow> True
           | Some n \<Rightarrow> if n \<noteq> 0 \<and> int (length b) \<noteq> n then False else True))"

text \<open>\<open>_validate_download\<close>; \<open>None\<close> when an exception other than \<open>BadZipFile\<close> leaves it.\<close>

definition validate_download ::
  "(string \<Rightarrow> zip_check) \<Rightarrow> files \<Rightarrow> string \<Rightarrow> FileInfo \<Rightarrow> bool option" where
  "validate_download zipchk fs file_path file_info =
     (case fs file_path of
        None \<Rightarrow> Some False
      | Some b \<Rightarrow>
          (if (case size' file_info of None \<Rightarrow> False | Some n \<Rightarrow> n \<noteq> 0 \<and> int (length b) \<noteq> n)
           then Some False
           else (case zipchk b of
                   ZipOk \<Rightarrow> Some True
                 | BadZipFile \<Rightarrow> Some False
                 | ZipError \<Rightarrow> None)))"

text \<open>
  \<open>download\<close> returns at four places: the file is there and valid (\<open>True\<close>), the download
  validated (\<open>True\<close>), validation failed (\<open>False\<close>), an exception was caught (\<open>False\<close>).
  \<open>net\<close> is what the one GET request to a URL meets.
\<close>

datatype download_outcome = AlreadyValid | Downloaded | ValidationFailed | DownloadError

definition download_result :: "download_outcome \<Rightarrow> bool" where
  "download_result outcome = (outcome = AlreadyValid \<or> outcome = Downloaded)"

definition download ::
  "Config \<Rightarrow> (string \<Rightarrow> zip_check) \<Rightarrow> (string \<Rightarrow> http_result) \<Rightarrow> files \<Rightarrow> FileInfo \<Rightarrow> string
     \<Rightarrow> download_outcome \<times> files \<times> http_event list" where
  "download config zipchk net fs file_info destination =
     (if fs destination \<noteq> None \<and> validate_existing_file fs destination file_info
      then (AlreadyValid, fs, [])
      else
        (let ev = [Get (url file_info) (request_timeout config)] in
         case net (url file_info) of
           Raises \<Rightarrow> (DownloadError, fs, ev)
         | Returns response \<Rightarrow>
             if raise_for_status response then (DownloadError, fs, ev)
             else if content_length response = None then (DownloadError, fs, ev)
             else
               (let written = concat (filter (\<lambda>chunk. chunk \<noteq> []) (chunks response));
                    fs1 = fs(destination \<mapsto> written)
                in if broken response then (DownloadError, fs1, ev)
                   else
                     (case validate_download zipchk fs1 destination file_info of
                        None \<Rightarrow> (DownloadError, fs1, ev)
                      | Some True \<Rightarrow> (Downloaded, fs1, ev)
                      | Some False \<Rightarrow> (ValidationFailed, fs1(destination := None), ev)))))"

section \<open>IATTCDataMonitor: the download step\<close>

definition destination_of :: "Config \<Rightarrow> FileInfo \<Rightarrow> string" where
  "destination_of config file_info = path_join (download_dir config) (filename file_info)"

text \<open>
  \<open>_download_files_concurrently\<close>: every descriptor is a task of the thread pool, running
  \<open>download\<close> for its destination. The workers take the tasks in the order of the list,
  at most \<open>max_workers\<close> of them at a time, and the running tasks interleave at their
  operations on the directory and the network. A task is at one of these places of
  \<open>download\<close>: waiting in the queue; at \<open>destination.exists()\<close>; in
  \<open>_validate_existing_file\<close> at \<open>exists()\<close> and at \<open>stat()\<close>; at the GET request; at
  \<open>open(destination, 'wb')\<close>, with the chunks the response will deliver and whether the
  transfer then raises; writing, with the open file, its position, the buffered bytes
  and the chunks still to come; in \<open>_validate_download\<close> at \<open>exists()\<close>, at \<open>stat()\<close> and
  at the ZIP check; at \<open>unlink\<close>; or returned.
\<close>

datatype pc =
    Queued
  | CheckExists
  | ValidateExists
  | ValidateStat
  | DoGet
  | DoOpen "string list" bool
  | Writing nat nat string "string list" bool
  | VerifyExists
  | VerifyStat
  | VerifyZip
  | DoUnlink
  | Finished download_outcome

text \<open>
  The state of the step. At a path of the directory is a file, with an identity and its
  bytes: a file created anew has a new identity, a file opened for writing keeps its
  identity and loses its bytes, and what a task writes reaches the file at its path only
  while that is still the file it opened (no file of the directory has a second name).
  \<open>collected\<close> lists the tasks whose futures \<open>as_completed\<close> has yielded, in that order.
\<close>

record pool =
  disk :: "string \<Rightarrow> (nat \<times> string) option"
  next_id :: nat
  pcs :: "nat \<Rightarrow> pc"
  requests :: "nat \<Rightarrow> http_event list"
  collected :: "nat list"
  downloaded_files :: "string list"

definition contents :: "pool \<Rightarrow> files" where
  "contents s p = map_option snd (disk s p)"

definition initial :: "files \<Rightarrow> pool" where
  "initial fs =
     \<lparr>disk = (\<lambda>p. map_option (Pair 0) (fs p)), next_id = 1, pcs = (\<lambda>i. Queued),
      requests = (\<lambda>i. []), collected = [], downloaded_files = []\<rparr>"

definition has_size :: "FileInfo \<Rightarrow> bool" where
  "has_size file_info = (case size' file_info of None \<Rightarrow> False | Some n \<Rightarrow> n \<noteq> 0)"

definition set_pc :: "nat \<Rightarrow> pc \<Rightarrow> pool \<Rightarrow> pool" where
  "set_pc i p s = s\<lparr>pcs := (pcs s)(i := p)\<rparr>"

text \<open>Writing bytes at a position of a file: a position beyond the end leaves a gap of
  zero bytes.\<close>

definition write_at :: "nat \<Rightarrow> string \<Rightarrow> string \<Rightarrow> string" where
  "write_at off b old =
     (let padded = old @ replicate (off - length old) (char_of (0 :: nat))
      in take off padded @ b @ drop (off + length b) padded)"

text \<open>The buffered bytes of the open file \<open>k\<close> go to the file at the path, if that is
  still the file \<open>k\<close>.\<close>

definition flush :: "string \<Rightarrow> nat \<Rightarrow> nat \<Rightarrow> string \<Rightarrow> pool \<Rightarrow> pool" where
  "flush destination k off buf s =
     (if buf = [] then s
      else case disk s destination of
             None \<Rightarrow> s
           | Some (k', old) \<Rightarrow>
               if k' = k then s\<lparr>disk := (disk s)(destination \<mapsto> (k, write_at off buf old))\<rparr>
               else s)"

text \<open>One operation of the task \<open>i\<close>, which is at \<open>pcs s i\<close>.\<close>

fun step_at ::
  "Config \<Rightarrow> (string \<Rightarrow> zip_check) \<Rightarrow> (string \<Rightarrow> http_result) \<Rightarrow> FileInfo \<Rightarrow> string \<Rightarrow> nat
     \<Rightarrow> pc \<Rightarrow> pool \<Rightarrow> pool" where
  "step_at config zipchk net file_info destination i Queued s = set_pc i CheckExists s"
| "step_at config zipchk net file_info destination i CheckExists s =
     set_pc i (if disk s destination = None then DoGet else ValidateExists) s"
| "step_at config zipchk net file_info destination i ValidateExists s =
     set_pc i
       (if disk s destination = None then DoGet
        else if has_size file_info then ValidateStat else Finished AlreadyValid) s"
| "step_at config zipchk net file_info destination i ValidateStat s =
     set_pc i
       (case disk s destination of
          None \<Rightarrow> Finished DownloadError
        | Some (k, b) \<Rightarrow>
            if size' file_info \<noteq> Some (int (length b)) then DoGet else Finished AlreadyValid) s"
| "step_at config zipchk net file_info destination i DoGet s =
     set_pc i
       (case net (url file_info) of
          Raises \<Rightarrow> Finished DownloadError
        | Returns response \<Rightarrow>
            if raise_for_status response then Finished DownloadError
            else if content_length response = None then Finished DownloadError
            else DoOpen (chunks response) (broken response))
       (s\<lparr>requests := (requests s)
             (i := requests s i @ [Get (url file_info) (request_timeout config)])\<rparr>)"
| "step_at config zipchk net file_info destination i (DoOpen cs b) s =
     (case disk s destination of
        Some (k, old) \<Rightarrow>
          set_pc i (Writing k 0 [] cs b) (s\<lparr>disk := (disk s)(destination \<mapsto> (k, []))\<rparr>)
      | None \<Rightarrow>
          set_pc i (Writing (next_id s) 0 [] cs b)
            (s\<lparr>disk := (disk s)(destination \<mapsto> (next_id s, [])), next_id := Suc (next_id s)\<rparr>))"
| "step_at config zipchk net file_info destination i (Writing k off buf (chunk # cs) b) s =
     set_pc i (Writing k off (buf @ chunk) cs b) s"
| "step_at config zipchk net file_info destination i (Writing k off buf [] b) s =
     set_pc i (if b then Finished DownloadError else VerifyExists) (flush destination k off buf s)"
| "step_at config zipchk net file_info destination i VerifyExists s =
     set_pc i
       (if disk s destination = None then DoUnlink
        else if has_size file_info then VerifyStat else VerifyZip) s"
| "step_at config zipchk net file_info destination i VerifyStat s =
     set_pc i
       (case disk s destination of
          None \<Rightarrow> Finished DownloadError
        | Some (k, b) \<Rightarrow>
            if size' file_info \<noteq> Some (int (length b)) then DoUnlink else VerifyZip) s"
| "step_at config zipchk net file_info destination i VerifyZip s =
     set_pc i
       (case disk s destination of
          None \<Rightarrow> Finished DownloadError
        | Some (k, b) \<Rightarrow>
            (case zipchk b of
               ZipOk \<Rightarrow> Finished Downloaded
             | BadZipFile \<Rightarrow> DoUnlink
             | ZipError \<Rightarrow> Finished DownloadError)) s"
| "step_at config zipchk net file_info destination i DoUnlink s =
     set_pc i (Finished ValidationFailed) (s\<lparr>disk := (disk s)(destination := None)\<rparr>)"
| "step_at config zipchk net file_info destination i (Finished outcome) s = s"

text \<open>The buffer of a writing task may be written out at any time before the file is
  closed.\<close>

definition flush_task :: "string \<Rightarrow> nat \<Rightarrow> pool \<Rightarrow> pool" where
  "flush_task destination i s =
     (case pcs s i of
        Writing k off buf cs b \<Rightarrow>
          if buf = [] then s
          else set_pc i (Writing k (off + length buf) [] cs b) (flush destination k off buf s)
      | _ \<Rightarrow> s)"

definition running :: "pc \<Rightarrow> bool" where
  "running p = (case p of Queued \<Rightarrow> False | Finished outcome \<Rightarrow> False | _ \<Rightarrow> True)"

text \<open>A worker takes the task \<open>i\<close> from the queue when the tasks before it have been taken
  and fewer than \<open>max_workers\<close> tasks are running.\<close>

definition startable :: "Config \<Rightarrow> nat \<Rightarrow> pool \<Rightarrow> nat \<Rightarrow> bool" where
  "startable config n s i =
     (pcs s i = Queued \<and> list_all (\<lambda>j. pcs s j \<noteq> Queued) [0..<i] \<and>
      length (filter (\<lambda>j. running (pcs s j)) [0..<n]) < nat (max_workers config))"

text \<open>
  What can happen next: a task does its next operation, the buffer of a task is written
  out, or the loop over \<open>as_completed\<close> takes the future of a returned task and appends
  its destination when the result is \<open>True\<close>. What cannot happen in the state leaves it
  as it is.
\<close>

datatype action = Step nat | Flush nat | Collect nat

definition act ::
  "Config \<Rightarrow> (string \<Rightarrow> zip_check) \<Rightarrow> (string \<Rightarrow> http_result) \<Rightarrow> FileInfo list \<Rightarrow> action
     \<Rightarrow> pool \<Rightarrow> pool" where
  "act config zipchk net zip_files a s =
     (case a of
        Step i \<Rightarrow>
          if i < length zip_files \<and>
             (pcs s i \<noteq> Queued \<or> startable config (length zip_files) s i)
          then step_at config zipchk net (zip_files ! i)
                 (destination_of config (zip_files ! i)) i (pcs s i) s
          else s
      | Flush i \<Rightarrow>
          if i < length zip_files
          then flush_task (destination_of config (zip_files ! i)) i s else s
      | Collect i \<Rightarrow>
          if i < length zip_files \<and> i \<notin> set (collected s)
          then (case pcs s i of
                  Finished outcome \<Rightarrow>
                    s\<lparr>collected := collected s @ [i],
                      downloaded_files :=
                        (if download_result outcome
                         then downloaded_files s @ [destination_of config (zip_files ! i)]
                         else downloaded_files s)\<rparr>
                | _ \<Rightarrow> s)
          else s)"

definition run ::
  "Config \<Rightarrow> (string \<Rightarrow> zip_check) \<Rightarrow> (string \<Rightarrow> http_result) \<Rightarrow> FileInfo list \<Rightarrow> action list
     \<Rightarrow> pool \<Rightarrow> pool" where
  "run config zipchk net zip_files schedule s = fold (act config zipchk net zip_files) schedule s"

text \<open>The step returns when every future has been yielded; it returns
  \<open>downloaded_files\<close>.\<close>

definition completed :: "FileInfo list \<Rightarrow> pool \<Rightarrow> bool" where
  "completed zip_files s = list_all (\<lambda>i. i \<in> set (collected s)) [0..<length zip_files]"

text \<open>
  \<open>_download_files_concurrently\<close> under a schedule, from the files \<open>fs\<close>: \<open>None\<close> when
  \<open>ThreadPoolExecutor\<close> raises for a \<open>max_workers\<close> that is not positive, else the state
  the schedule leads to.
\<close>

definition download_files_concurrently ::
  "Config \<Rightarrow> (string \<Rightarrow> zip_check) \<Rightarrow> (string \<Rightarrow> http_result) \<Rightarrow> files \<Rightarrow> FileInfo list
     \<Rightarrow> action list \<Rightarrow> pool option" where
  "download_files_concurrently config zipchk net fs zip_files schedule =
     (if max_workers config \<le> 0 then None
      else Some (run config zipchk net zip_files schedule (initial fs)))"

text \<open>The schedule of a pool that runs the tasks one after the other: the task \<open>i\<close> does
  \<open>n\<close> operations, then the next, and at the end every future is taken.\<close>

definition one_by_one :: "nat list \<Rightarrow> action list" where
  "one_by_one ns =
     concat (map (\<lambda>(i, n). replicate n (Step i)) (zip [0..<length ns] ns))
     @ map Collect [0..<length ns]"

section \<open>Concrete inputs\<close>

text \<open>The default configuration of the source.\<close>

definition ex_config :: Config where
  "ex_config =
     \<lparr>base_url = ''https://iattc.org/en-US/Data/Public-domain'',
      download_dir = ''./downloads'',
      output_dir = ''./json_output'',
      log_file = ''./iattc_monitor.log'',
      cache_file = ''./site_cache.json'',
      check_interval_minutes = 60,
      max_workers = 4,
      user_agent = ''IATTC-Data-Monitor/1.0'',
      request_timeout = 30,
      retry_attempts = 3\<rparr>"

definition ex_no_headers :: "string \<Rightarrow> string option" where
  "ex_no_headers h = None"







text \<open>Archives on the server: a good one, one that is not an archive, one whose transfer
  breaks. The check accepts bytes that start with the ZIP signature.\<close>

definition ex_zipchk :: "string \<Rightarrow> zip_check" where
  "ex_zipchk b = (if take 2 b = ''PK'' then ZipOk else BadZipFile)"

definition ex_archive :: Response where
  "ex_archive = \<lparr>status_code = 200, headers = ex_no_headers, chunks = [''PK'', ''data''],
                 broken = False\<rparr>"

definition ex_not_archive :: Response where
  "ex_not_archive = \<lparr>status_code = 200, headers = ex_no_headers, chunks = [''<html>oops''],
                     broken = False\<rparr>"

definition ex_broken_archive :: Response where
  "ex_broken_archive = \<lparr>status_code = 200, headers = ex_no_headers, chunks = [''PK''],
                        broken = True\<rparr>"


definition ex_file_a2 :: FileInfo where
  "ex_file_a2 = \<lparr>url = ''https://iattc.org/y/a.zip'', filename = ''a.zip'', size' = Some 10,
                 last_modified = None, checksum = None\<rparr>"

definition ex_file_b :: FileInfo where
  "ex_file_b = \<lparr>url = ''https://iattc.org/x/b.zip'', filename = ''b.zip'', size' = Some 0,
                last_modified = None, checksum = None\<rparr>"

definition ex_file_c :: FileInfo where
  "ex_file_c = \<lparr>url = ''https://iattc.org/x/c.zip'', filename = ''c.zip'', size' = Some 6,
                last_modified = None, checksum = None\<rparr>"

definition ex_net :: "string \<Rightarrow> http_result" where
  "ex_net u =
     (if u = ''https://iattc.org/x/a.zip'' then Returns ex_archive
      else if u = ''https://iattc.org/y/a.zip'' then Returns ex_not_archive
      else if u = ''https://iattc.org/x/b.zip'' then Returns ex_not_archive
      else if u = ''https://iattc.org/x/c.zip'' then Returns ex_broken_archive
      else Raises)"


definition ex_no_files :: files where
  "ex_no_files p = None"

definition ex_one_file :: files where
  "ex_one_file p = (if p = ''./downloads/c.zip'' then Some ''PKdata'' else None)"

text \<open>A CSV file with a header line and no other line, and one with one row.\<close>

definition ex_header_only :: csvfile where
  "ex_header_only encoding = Parsed []"

definition ex_one_row :: csvfile where
  "ex_one_row encoding = Parsed [[(Some ''a'', CellStr ''1'')]]"

text \<open>The row that the reader yields for the header \<open>a,b\<close> and the line \<open>1,2,3\<close>, and
  a file with that row.\<close>

definition ex_surplus_row :: row where
  "ex_surplus_row = dictreader_row [''a'', ''b''] [''1'', ''2'', ''3'']"

definition ex_surplus_file :: csvfile where
  "ex_surplus_file encoding = Parsed [ex_surplus_row]"

text \<open>A CSV file on disk, a registry with the converter registered twice, and a server
  that fails every request.\<close>

definition ex_csv_node :: fnode where
  "ex_csv_node = File ex_one_row None"

definition ex_registry_twice :: "processor list" where
  "ex_registry_twice = [CSVToJSONConverter, CSVToJSONConverter]"


section \<open>Lemmas on the downloader\<close>

lemma written_chunks: "concat (filter (\<lambda>chunk. chunk \<noteq> []) cs) = concat cs"
  by (induction cs) auto

lemma enrich_no_length:
  "headers response ''content-length'' = None \<Longrightarrow>
   size' (fst (enrich_file_info config (Returns response) file_info)) = Some 0"
  by (simp add: enrich_file_info_def content_length_def)

lemma validate_existing_unsized:
  "size' file_info = Some 0 \<or> size' file_info = None \<Longrightarrow>
   validate_existing_file fs p file_info = (fs p \<noteq> None)"
  by (auto simp: validate_existing_file_def split: option.splits)

lemma validate_download_unsized:
  "size' file_info = Some 0 \<or> size' file_info = None \<Longrightarrow> fs p = Some b \<Longrightarrow>
   validate_download zipchk fs p file_info =
     (case zipchk b of ZipOk \<Rightarrow> Some True | BadZipFile \<Rightarrow> Some False | ZipError \<Rightarrow> None)"
  by (auto simp: validate_download_def split: option.splits)

lemma download_skip:
  "fs destination \<noteq> None \<Longrightarrow> validate_existing_file fs destination file_info \<Longrightarrow>
   download config zipchk net fs file_info destination = (AlreadyValid, fs, [])"
  by (simp add: download_def)

text \<open>Each way \<open>download\<close> can end, with what it leaves on disk.\<close>

lemma download_shape:
  "download config zipchk net fs file_info destination = (outcome, fs', ev) \<Longrightarrow>
   (outcome = AlreadyValid \<and> fs' = fs \<and> ev = []) \<or>
   (outcome = DownloadError \<and> (fs' = fs \<or> (\<exists>w. fs' = fs(destination \<mapsto> w)))) \<or>
   (outcome = Downloaded \<and> (\<exists>w. fs' = fs(destination \<mapsto> w) \<and>
        validate_download zipchk fs' destination file_info = Some True)) \<or>
   (outcome = ValidationFailed \<and> fs' = fs(destination := None))"
  unfolding download_def Let_def
  by (simp split: if_splits http_result.splits option.splits bool.splits) blast+

lemma download_frame:
  assumes "download config zipchk net fs file_info destination = (outcome, fs', ev)"
    and "p \<noteq> destination"
  shows "fs' p = fs p"
  using download_shape [OF assms(1)] assms(2) by auto

lemma validate_existing_local:
  "fs destination = fs2 destination \<Longrightarrow>
   validate_existing_file fs destination file_info = validate_existing_file fs2 destination file_info"
  by (simp add: validate_existing_file_def)

lemma validate_download_local:
  "fs destination = fs2 destination \<Longrightarrow>
   validate_download zipchk fs destination file_info = validate_download zipchk fs2 destination file_info"
  by (simp add: validate_download_def)

text \<open>What \<open>download\<close> returns, requests and leaves at its destination depends on the
  files only through the destination.\<close>

lemma download_local:
  assumes "fs destination = fs2 destination"
  shows "fst (download config zipchk net fs file_info destination) =
           fst (download config zipchk net fs2 file_info destination) \<and>
         fst (snd (download config zipchk net fs file_info destination)) destination =
           fst (snd (download config zipchk net fs2 file_info destination)) destination \<and>
         snd (snd (download config zipchk net fs file_info destination)) =
           snd (snd (download config zipchk net fs2 file_info destination))"
proof -
  have v: "validate_existing_file fs destination file_info =
           validate_existing_file fs2 destination file_info"
    using assms by (rule validate_existing_local)
  have w: "\<And>b. validate_download zipchk (fs(destination \<mapsto> b)) destination file_info =
                validate_download zipchk (fs2(destination \<mapsto> b)) destination file_info"
    by (rule validate_download_local) simp
  show ?thesis
    unfolding download_def Let_def
    using assms v w
    by (simp split: http_result.splits option.splits bool.splits)
qed

lemma download_again:
  assumes "download config zipchk net fs file_info destination = (outcome, fs', ev)"
    and "download_result outcome"
  shows "download config zipchk net' fs' file_info destination = (AlreadyValid, fs', [])"
proof -
  from download_shape [OF assms(1)] assms(2)
  consider (skip) "outcome = AlreadyValid" "fs' = fs"
    | (fresh) w where "outcome = Downloaded" "fs' = fs(destination \<mapsto> w)"
        "validate_download zipchk fs' destination file_info = Some True"
    by (auto simp: download_result_def)
  then show ?thesis
  proof cases
    case skip
    with assms(1) have "fs destination \<noteq> None \<and> validate_existing_file fs destination file_info"
      unfolding download_def Let_def
      by (simp split: if_splits http_result.splits option.splits bool.splits)
    with skip show ?thesis by (simp add: download_skip)
  next
    case fresh
    then have "fs' destination \<noteq> None" by simp
    moreover from fresh have "validate_existing_file fs' destination file_info"
      by (auto simp: validate_download_def validate_existing_file_def
          split: option.splits if_splits)
    ultimately show ?thesis by (rule download_skip)
  qed
qed

section \<open>Claims on the downloader\<close>

text \<open>
  C9. A HEAD response without a content-length header sets the size to 0. With a size
  of 0, as with no size, an existing destination file is valid whatever its length, so
  that \<open>download\<close> skips it, and the validation of a download is decided by the ZIP check
  alone, whatever the number of bytes.
\<close>

theorem C9_zero_size_disables_size_check:
  "(headers response ''content-length'' = None \<longrightarrow>
      size' (fst (enrich_file_info config (Returns response) file_info0)) = Some 0) \<and>
   (size' file_info = Some 0 \<or> size' file_info = None \<longrightarrow>
      validate_existing_file fs p file_info = (fs p \<noteq> None) \<and>
      (fs p \<noteq> None \<longrightarrow> download config zipchk net fs file_info p = (AlreadyValid, fs, [])) \<and>
      (\<forall>b. fs p = Some b \<longrightarrow>
         validate_download zipchk fs p file_info =
           (case zipchk b of ZipOk \<Rightarrow> Some True | BadZipFile \<Rightarrow> Some False | ZipError \<Rightarrow> None)))"
proof (intro conjI impI allI)
  assume "headers response ''content-length'' = None"
  then show "size' (fst (enrich_file_info config (Returns response) file_info0)) = Some 0"
    by (rule enrich_no_length)
next
  assume u: "size' file_info = Some 0 \<or> size' file_info = None"
  then show v: "validate_existing_file fs p file_info = (fs p \<noteq> None)"
    by (rule validate_existing_unsized)
  { assume "fs p \<noteq> None"
    with v show "download config zipchk net fs file_info p = (AlreadyValid, fs, [])"
      by (simp add: download_skip) }
  { fix b assume "fs p = Some b"
    with u show "validate_download zipchk fs p file_info =
           (case zipchk b of ZipOk \<Rightarrow> Some True | BadZipFile \<Rightarrow> Some False | ZipError \<Rightarrow> None)"
      by (rule validate_download_unsized) }
qed

theorem C9_zero_size_disables_size_check_witness:
  "headers ex_not_archive ''content-length'' = None \<and>
   size' (fst (enrich_file_info ex_config (Returns ex_not_archive) ex_file_c)) = Some 0 \<and>
   size' ex_file_b = Some 0 \<and>
   ex_one_file ''./downloads/c.zip'' = Some ''PKdata'' \<and>
   validate_existing_file ex_one_file ''./downloads/c.zip'' ex_file_b \<and>
   download ex_config ex_zipchk ex_net ex_one_file ex_file_b ''./downloads/c.zip''
     = (AlreadyValid, ex_one_file, []) \<and>
   validate_download ex_zipchk ex_one_file ''./downloads/c.zip'' ex_file_b = Some True"
proof -
  have h: "headers ex_not_archive ''content-length'' = None"
    by (simp add: ex_not_archive_def ex_no_headers_def)
  have s: "size' ex_file_b = Some 0" by (simp add: ex_file_b_def)
  have f: "ex_one_file ''./downloads/c.zip'' = Some ''PKdata''" by (simp add: ex_one_file_def)
  have z: "ex_zipchk ''PKdata'' = ZipOk" by (simp add: ex_zipchk_def)
  from C9_zero_size_disables_size_check [of ex_not_archive ex_config ex_file_c ex_file_b
      ex_one_file "''./downloads/c.zip''" ex_zipchk ex_net] h s f z
  show ?thesis by simp
qed

text \<open>
  C10. When the transfer breaks after the response has arrived, \<open>download\<close> returns
  \<open>False\<close> and the destination holds the bytes received so far. A file that was there
  before the call is gone after it only when the call ended at the validation failure.
\<close>

theorem C10_partial_file_left:
  "(net (url file_info) = Returns response \<and> \<not> raise_for_status response \<and>
    content_length response \<noteq> None \<and> broken response \<and>
    \<not> (fs destination \<noteq> None \<and> validate_existing_file fs destination file_info) \<longrightarrow>
      download config zipchk net fs file_info destination =
        (DownloadError, fs(destination \<mapsto> concat (chunks response)),
         [Get (url file_info) (request_timeout config)]) \<and>
      \<not> download_result DownloadError) \<and>
   (fs destination \<noteq> None \<and>
    fst (snd (download config zipchk net fs file_info destination)) destination = None \<longrightarrow>
      fst (download config zipchk net fs file_info destination) = ValidationFailed)"
proof (intro conjI impI)
  assume "net (url file_info) = Returns response \<and> \<not> raise_for_status response \<and>
    content_length response \<noteq> None \<and> broken response \<and>
    \<not> (fs destination \<noteq> None \<and> validate_existing_file fs destination file_info)"
  then show "download config zipchk net fs file_info destination =
        (DownloadError, fs(destination \<mapsto> concat (chunks response)),
         [Get (url file_info) (request_timeout config)])"
    by (auto simp: download_def written_chunks)
  show "\<not> download_result DownloadError" by (simp add: download_result_def)
next
  assume a: "fs destination \<noteq> None \<and>
    fst (snd (download config zipchk net fs file_info destination)) destination = None"
  obtain outcome fs' ev where
    d: "download config zipchk net fs file_info destination = (outcome, fs', ev)"
    by (cases "download config zipchk net fs file_info destination") auto
  from download_shape [OF d] a d
  show "fst (download config zipchk net fs file_info destination) = ValidationFailed"
    by auto
qed

theorem C10_partial_file_left_witness:
  "download ex_config ex_zipchk ex_net ex_no_files ex_file_c ''./downloads/c.zip''
     = (DownloadError, ex_no_files(''./downloads/c.zip'' \<mapsto> ''PK''),
        [Get ''https://iattc.org/x/c.zip'' 30]) \<and>
   ex_one_file ''./downloads/c.zip'' \<noteq> None \<and>
   fst (snd (download ex_config ex_zipchk ex_net ex_one_file ex_file_a2 ''./downloads/c.zip''))
     ''./downloads/c.zip'' = None \<and>
   fst (download ex_config ex_zipchk ex_net ex_one_file ex_file_a2 ''./downloads/c.zip'')
     = ValidationFailed"
proof -
  have n: "ex_net (url ex_file_c) = Returns ex_broken_archive"
    by (simp add: ex_net_def ex_file_c_def)
  have r: "\<not> raise_for_status ex_broken_archive"
    by (simp add: raise_for_status_def ex_broken_archive_def)
  have c: "content_length ex_broken_archive \<noteq> None"
    by (simp add: content_length_def ex_broken_archive_def ex_no_headers_def)
  have b: "broken ex_broken_archive" by (simp add: ex_broken_archive_def)
  have e: "\<not> (ex_no_files ''./downloads/c.zip'' \<noteq> None \<and>
              validate_existing_file ex_no_files ''./downloads/c.zip'' ex_file_c)"
    by (simp add: ex_no_files_def)
  have f: "ex_one_file ''./downloads/c.zip'' \<noteq> None" by (simp add: ex_one_file_def)
  have g: "fst (snd (download ex_config ex_zipchk ex_net ex_one_file ex_file_a2 ''./downloads/c.zip''))
     ''./downloads/c.zip'' = None"
    by (simp add: download_def ex_one_file_def ex_file_a2_def ex_net_def ex_not_archive_def
        raise_for_status_def content_length_def ex_no_headers_def validate_download_def
        validate_existing_file_def ex_zipchk_def ex_config_def)
  from C10_partial_file_left [of ex_net ex_file_c ex_broken_archive ex_no_files
      "''./downloads/c.zip''" ex_config ex_zipchk] n r c b e
  have 1: "download ex_config ex_zipchk ex_net ex_no_files ex_file_c ''./downloads/c.zip''
     = (DownloadError, ex_no_files(''./downloads/c.zip'' \<mapsto> ''PK''),
        [Get ''https://iattc.org/x/c.zip'' 30])"
    by (simp add: ex_broken_archive_def ex_file_c_def ex_config_def)
  from C10_partial_file_left [of ex_net ex_file_a2 ex_broken_archive ex_one_file
      "''./downloads/c.zip''" ex_config ex_zipchk] f g
  have 2: "fst (download ex_config ex_zipchk ex_net ex_one_file ex_file_a2 ''./downloads/c.zip'')
     = ValidationFailed" by blast
  from 1 f g 2 show ?thesis by blast
qed

section \<open>Claims on the CSV converter\<close>

text \<open>When the first encoding does not decode the file and the second yields rows that
  clean to a non-empty list, those records are the result.\<close>

lemma read_csv_fallback:
  assumes "f ''utf-8'' = UnicodeDecodeError" and "f ''latin-1'' = Parsed rows"
    and "clean_rows rows = Inr data" and "data \<noteq> []"
  shows "read_csv f = Inr data"
  using assms by (simp add: read_csv_def encodings_def)

text \<open>
  C7. Reading is to fail only when every encoding fails. For a file with a header line
  and no other line the first encoding succeeds with no rows, and \<open>_read_csv\<close> raises
  all the same, with the message that no encoding could read the file.
\<close>

theorem C7_header_only_raises:
  "encoding_succeeds ex_header_only ''utf-8'' \<and>
   read_csv ex_header_only = Inl (Exception ''Could not read CSV file with any encoding'')"
  by (simp add: encoding_succeeds_def ex_header_only_def read_csv_def encodings_def)

text \<open>For a header with the names \<open>a\<close>, the empty name, and a name that strips to \<open>a\<close>,
  the empty name becomes the placeholder and the later value of \<open>a\<close> replaces the
  earlier one.\<close>

lemma clean_row_blank_and_duplicate:
  "clean_row (dictreader_row [''a'', [], '' a''] [''1'', ''2'', ''3''])
     = Inr [(''a'', PyInt 3), (''unnamed_column'', PyInt 2)]"
  by code_simp

text \<open>
  C8. A missing column name is to be replaced with a placeholder. A row with a cell
  beyond the last column name reaches \<open>_clean_row\<close> with the key \<open>None\<close> and a list as
  value; \<open>_clean_row\<close> raises on the list, for every encoding, so that the file is not
  converted.
\<close>

theorem C8_surplus_cells_raise:
  "ex_surplus_row
     = [(Some ''a'', CellStr ''1''), (Some ''b'', CellStr ''2''), (None, CellList [''3''])] \<and>
   clean_row ex_surplus_row = Inl AttributeError \<and>
   read_csv ex_surplus_file = Inl (Exception ''Could not read CSV file with any encoding'')"
  by code_simp

section \<open>Claims on the download step\<close>

lemma destination_inj:
  "destination_of config a = destination_of config b \<Longrightarrow> filename a = filename b"
  by (simp add: destination_of_def path_join_def)

lemma download_ok_file:
  assumes "download config zipchk net fs file_info destination = (outcome, fs', ev)"
    and "download_result outcome"
  shows "fs' destination \<noteq> None"
proof -
  from download_again [OF assms, of net]
  have "download config zipchk net fs' file_info destination = (AlreadyValid, fs', [])" .
  then show ?thesis
    unfolding download_def Let_def
    by (simp split: if_splits http_result.splits option.splits bool.splits)
qed

lemma download_failed_file:
  assumes "fst (download config zipchk net fs file_info destination) = ValidationFailed"
  shows "fst (snd (download config zipchk net fs file_info destination)) destination = None"
proof -
  obtain outcome fs' ev where
    d: "download config zipchk net fs file_info destination = (outcome, fs', ev)"
    by (cases "download config zipchk net fs file_info destination") auto
  from download_shape [OF d] assms d show ?thesis by auto
qed

section \<open>Claims on the processing chain\<close>

lemma calls_of_loop:
  assumes "\<And>p. p \<in> set ps \<Longrightarrow>
      map call_head (snd (f p)) = (if can_process p file_path then [(p, file_path)] else [])"
  shows "map call_head (concat (map snd (map f ps))) =
         map (\<lambda>p. (p, file_path)) (filter (\<lambda>p. can_process p file_path) ps)"
  using assms by (induction ps) auto

lemma top_calls:
  "map call_head (snd (process_single_file file_processors out_dir file_path node)) =
     map (\<lambda>p. (p, file_path)) (filter (\<lambda>p. can_process p file_path) file_processors)"
  apply (subst process_single_file.simps)
  apply (simp only: Let_def snd_conv)
  apply (rule calls_of_loop)
  apply (simp add: call_head_def split: processor.splits)
  done

lemma suffix_disjoint:
  "\<not> (can_process ZipProcessor file_path \<and> can_process CSVToJSONConverter file_path)"
  by (auto simp: can_process_def)

text \<open>
  C3. For a file, \<open>process\<close> is called once for every registered processor whose
  \<open>can_process\<close> holds, in the order of the registry. With the registry of
  \<open>create_monitor\<close> the two predicates exclude each other, so at most one processor
  processes the file.
\<close>

theorem C3_every_matching_processor_runs:
  "map call_head (snd (process_single_file file_processors out_dir file_path node)) =
     map (\<lambda>p. (p, file_path)) (filter (\<lambda>p. can_process p file_path) file_processors) \<and>
   length (snd (process_single_file create_monitor_processors out_dir file_path node)) \<le> 1"
proof
  show "map call_head (snd (process_single_file file_processors out_dir file_path node)) =
     map (\<lambda>p. (p, file_path)) (filter (\<lambda>p. can_process p file_path) file_processors)"
    by (rule top_calls)
  have "length (map call_head
          (snd (process_single_file create_monitor_processors out_dir file_path node))) \<le> 1"
    unfolding top_calls using suffix_disjoint [of file_path]
    by (auto simp: create_monitor_processors_def)
  then show "length (snd (process_single_file create_monitor_processors out_dir file_path node)) \<le> 1"
    by simp
qed

text \<open>With the converter registered twice, a CSV file is processed twice in one pass.\<close>

theorem C3_counterexample:
  "process_single_file ex_registry_twice ''./json_output'' ''./json_output/a/data.csv'' ex_csv_node
     = ([''./json_output/data.json'', ''./json_output/data.json''],
        [Call CSVToJSONConverter ''./json_output/a/data.csv'' [],
         Call CSVToJSONConverter ''./json_output/a/data.csv'' []])"
  by code_simp

theorem C3_every_matching_processor_runs_witness:
  "map call_head (snd (process_single_file ex_registry_twice ''./json_output''
      ''./json_output/a/data.csv'' ex_csv_node))
     = [(CSVToJSONConverter, ''./json_output/a/data.csv''),
        (CSVToJSONConverter, ''./json_output/a/data.csv'')] \<and>
   length (snd (process_single_file create_monitor_processors ''./json_output''
      ''./json_output/a/data.csv'' ex_csv_node)) \<le> 1"
proof -
  have "filter (\<lambda>p. can_process p ''./json_output/a/data.csv'') ex_registry_twice
          = [CSVToJSONConverter, CSVToJSONConverter]"
    by code_simp
  with C3_every_matching_processor_runs [of ex_registry_twice "''./json_output''"
      "''./json_output/a/data.csv''" ex_csv_node]
  show ?thesis by simp
qed

section \<open>Claims on the website monitor and the requests\<close>

















end
